theory Spec2Isabelle
  imports Complex_Main "HOL-Library.Monad_Syntax"
begin

section \<open>Tensors\<close>

text \<open>
  The operator of \<^verbatim>\<open>src/ops/segment_ops.ts\<close> works on the library's \<^verbatim>\<open>Tensor\<close>
  class, whose code is not part of the verified file. A tensor is modelled by what the
  operator reads from it: its element type tag, its shape, and the element stored at a
  position (one index per dimension). Positions are lists of integers, so that a
  negative or too large index is a position like any other: it lies outside the array,
  and \<open>inRange\<close> says so. What \<open>valAt\<close> holds outside the shape has no meaning and no
  theorem below reads it.

  The elements of a segment id tensor are \<^verbatim>\<open>int32\<close> values. They are only compared
  with zero, clamped at zero and used as indices, none of which can overflow, so they
  are modelled as integers.
\<close>

datatype dtype = Float32 | Int32 | Bool

record 'a tensor =
  dtype :: dtype
  shape :: "nat list"
  valAt :: "int list \<Rightarrow> 'a"

definition rank :: "'a tensor \<Rightarrow> nat" where
  "rank t = length (shape t)"

definition inRange :: "nat list \<Rightarrow> int list \<Rightarrow> bool" where
  "inRange sh idx = list_all2 (\<lambda>i d. 0 \<le> i \<and> i < int d) idx sh"

subsection \<open>The array primitive library\<close>

text \<open>
  Modelled from the spec: \<^verbatim>\<open>ArrayOps.zerosLike\<close>, \<^verbatim>\<open>ArrayOps.onesLike\<close> and
  \<^verbatim>\<open>ArrayOps.scalar\<close> (section 6: zero/one-filled construction "like" an array, a
  scalar constant of a given value and element type).
\<close>

definition zerosLike :: "'a::zero tensor \<Rightarrow> 'a tensor" where
  "zerosLike t = t\<lparr>valAt := (\<lambda>idx. 0)\<rparr>"

definition onesLike :: "'a::one tensor \<Rightarrow> 'a tensor" where
  "onesLike t = t\<lparr>valAt := (\<lambda>idx. 1)\<rparr>"

definition scalar :: "'a \<Rightarrow> dtype \<Rightarrow> 'a tensor" where
  "scalar v dt = \<lparr>dtype = dt, shape = [], valAt = (\<lambda>idx. v)\<rparr>"

text \<open>
  Modelled from the spec: the broadcasting of the elementwise binary primitives
  (\<^verbatim>\<open>BinaryOps.maximum\<close>, \<^verbatim>\<open>CompareOps.greaterEqual\<close>, \<^verbatim>\<open>Tensor.equal\<close>,
  \<^verbatim>\<open>LogicalOps.logicalAnd\<close>). Section 4.3 applies them to a scalar against an array
  and to a mask with singleton dimensions against an array, "to broadcast the mask
  across every trailing dimension". The shapes are aligned at their last dimension; a
  missing dimension or a dimension of size one is stretched to the other operand's size;
  two sizes that differ and are both not one do not broadcast (the shape mismatch error
  of section 7, here \<open>None\<close>).
\<close>

fun broadcastShapeRev :: "nat list \<Rightarrow> nat list \<Rightarrow> nat list option" where
  "broadcastShapeRev [] bs = Some bs"
| "broadcastShapeRev (a # as) [] = Some (a # as)"
| "broadcastShapeRev (a # as) (b # bs) =
     (if a = b \<or> b = 1 then map_option ((#) a) (broadcastShapeRev as bs)
      else if a = 1 then map_option ((#) b) (broadcastShapeRev as bs)
      else None)"

definition broadcastShape :: "nat list \<Rightarrow> nat list \<Rightarrow> nat list option" where
  "broadcastShape sa sb = map_option rev (broadcastShapeRev (rev sa) (rev sb))"

text \<open>
  The position an operand of shape \<open>sh\<close> is read at for the position \<open>idx\<close> of the
  broadcast result: the last \<open>length sh\<close> indices, with index 0 along a dimension of
  size one.
\<close>

definition broadcastIndex :: "nat list \<Rightarrow> int list \<Rightarrow> int list" where
  "broadcastIndex sh idx =
     map (\<lambda>(d, i). if d = 1 then 0 else i) (zip sh (drop (length idx - length sh) idx))"

definition broadcastOp ::
  "('a \<Rightarrow> 'b \<Rightarrow> 'c) \<Rightarrow> dtype \<Rightarrow> 'a tensor \<Rightarrow> 'b tensor \<Rightarrow> 'c tensor option" where
  "broadcastOp f dt a b =
     (case broadcastShape (shape a) (shape b) of
        None \<Rightarrow> None
      | Some sh \<Rightarrow>
          Some \<lparr>dtype = dt, shape = sh,
                valAt = (\<lambda>idx. f (valAt a (broadcastIndex (shape a) idx))
                              (valAt b (broadcastIndex (shape b) idx)))\<rparr>)"

definition maximum :: "int tensor \<Rightarrow> int tensor \<Rightarrow> int tensor option" where
  "maximum a b = broadcastOp max (dtype a) a b"

definition greaterEqual :: "int tensor \<Rightarrow> int tensor \<Rightarrow> bool tensor option" where
  "greaterEqual a b = broadcastOp (\<lambda>u v. v \<le> u) Bool a b"

definition equalOp :: "'a tensor \<Rightarrow> 'a tensor \<Rightarrow> bool tensor option" where
  "equalOp a b = broadcastOp (\<lambda>u v. u = v) Bool a b"

definition logicalAnd :: "bool tensor \<Rightarrow> bool tensor \<Rightarrow> bool tensor option" where
  "logicalAnd a b = broadcastOp (\<lambda>u v. u \<and> v) Bool a b"

text \<open>
  Modelled from the spec: \<^verbatim>\<open>ArrayOps.gather\<close> (section 4.3, step 2: "for each
  original position i, take the slice dy[clippedIds[i]]"; section 6:
  \<^verbatim>\<open>gather(array, indices, axis)\<close>). The result has the size of the index tensor
  along \<open>axis\<close>; its element at a position is the element of \<open>x\<close> at the same position
  with the index along \<open>axis\<close> replaced by the index tensor's entry. A gather along an
  axis the array does not have, or with indices that are not one-dimensional, is a
  shape mismatch. The primitive checks no index against the size of \<open>x\<close>:
  \<open>gatherInBounds\<close> is the condition under which every read stays inside \<open>x\<close>.
\<close>

definition gather :: "'a tensor \<Rightarrow> int tensor \<Rightarrow> nat \<Rightarrow> 'a tensor option" where
  "gather x indices axis =
     (case shape indices of
        [n] \<Rightarrow>
          if axis < rank x
          then Some \<lparr>dtype = dtype x, shape = (shape x)[axis := n],
                     valAt = (\<lambda>idx. valAt x (idx[axis := valAt indices [idx ! axis]]))\<rparr>
          else None
      | _ \<Rightarrow> None)"

definition gatherInBounds :: "'a tensor \<Rightarrow> int tensor \<Rightarrow> nat \<Rightarrow> bool" where
  "gatherInBounds x indices axis =
     (case shape indices of
        [n] \<Rightarrow>
          axis < rank x \<and>
          list_all (\<lambda>i. 0 \<le> valAt indices [int i] \<and>
                        valAt indices [int i] < int (shape x ! axis)) [0 ..< n]
      | _ \<Rightarrow> False)"

text \<open>
  Modelled from the spec: \<^verbatim>\<open>ArrayOps.expandDims\<close> (section 6:
  \<^verbatim>\<open>expandTrailingDimension\<close>; section 4.3, step 4: "appending trailing singleton
  dimensions"). The source passes the axis \<open>-1\<close>, which counts from the end: the new
  dimension of size one is inserted at position \<open>rank + 1 + axis\<close> for a negative
  axis, and at \<open>axis\<close> otherwise. The spec describes the trailing dimension only; the
  source passes no other axis.
\<close>

definition expandDims :: "'a tensor \<Rightarrow> int \<Rightarrow> 'a tensor" where
  "expandDims t axis =
     (let p = nat (if axis < 0 then int (rank t) + 1 + axis else axis)
      in t\<lparr>shape := take p (shape t) @ [1] @ drop p (shape t),
            valAt := (\<lambda>idx. valAt t (take p idx @ drop (Suc p) idx))\<rparr>)"

text \<open>
  Modelled from the spec: \<^verbatim>\<open>LogicalOps.where\<close> (section 6:
  \<^verbatim>\<open>selectWhere(mask, a, b)\<close>; section 4.3, step 5). The three arrays have one shape
  (anything else is a shape mismatch); the result takes the element of \<open>a\<close> where the
  mask is true and the element of \<open>b\<close> where it is false.
\<close>

definition whereOp :: "bool tensor \<Rightarrow> 'a tensor \<Rightarrow> 'a tensor \<Rightarrow> 'a tensor option" where
  "whereOp condition a b =
     (if shape condition = shape a \<and> shape a = shape b
      then Some \<lparr>dtype = dtype a, shape = shape a,
                 valAt = (\<lambda>idx. if valAt condition idx then valAt a idx else valAt b idx)\<rparr>
      else None)"

section \<open>gatherDropNegatives\<close>

text \<open>
  The loop of lines 89 to 91,
  \<^verbatim>\<open>for (let i = 0; i < gathered.rank - isPositive.rank; ++i)
      isPositive = ArrayOps.expandDims(isPositive, -1);\<close>
  Its condition reads the rank of \<open>isPositive\<close> anew at every iteration, after the body
  has replaced \<open>isPositive\<close> by the expanded mask. The difference of the ranks may be
  negative, so it is computed on integers.
\<close>

function expandLoop :: "nat \<Rightarrow> nat \<Rightarrow> bool tensor \<Rightarrow> bool tensor" where
  "expandLoop i gatheredRank isPositive =
     (if int i < int gatheredRank - int (rank isPositive)
      then expandLoop (i + 1) gatheredRank (expandDims isPositive (- 1))
      else isPositive)"
  by pat_completeness auto
termination
  by (relation "measure (\<lambda>(i, g, t). nat (int g - int (rank t) - int i))")
     (auto simp: rank_def expandDims_def Let_def)

declare expandLoop.simps [simp del]

text \<open>
  \<^verbatim>\<open>gatherDropNegatives(x, indices, axis)\<close>, lines 79 to 96, statement by statement;
  the local names are the source's. A primitive that fails ends the function, as the
  exception would.
\<close>

definition gatherDropNegatives ::
  "'a::{zero,one} tensor \<Rightarrow> int tensor \<Rightarrow> nat \<Rightarrow> 'a tensor option" where
  "gatherDropNegatives x indices axis = do {
     zeroClippedIndices \<leftarrow> maximum indices (zerosLike indices);
     gathered \<leftarrow> gather x zeroClippedIndices axis;
     isPositive \<leftarrow> greaterEqual indices (scalar 0 Int32);
     isPositive \<leftarrow> Some (expandLoop 0 (rank gathered) isPositive);
     bools \<leftarrow> equalOp (onesLike gathered) (scalar 1 Float32);
     isPositive \<leftarrow> logicalAnd isPositive bools;
     zeroSlice \<leftarrow> Some (zerosLike gathered);
     whereOp isPositive gathered zeroSlice
   }"

text \<open>
  The values of the locals of \<^verbatim>\<open>gatherDropNegatives\<close>, each as a function of the
  arguments it depends on, to state what is handed to \<^verbatim>\<open>gather\<close> and to
  \<^verbatim>\<open>where\<close>: \<open>zeroClippedIndices\<close> (line 84), \<open>gathered\<close> (line 86), \<open>isPositive\<close>
  after the loop (lines 87 to 91), \<open>bools\<close> (line 92) and \<open>isPositive\<close> after the
  logical and (line 93), here \<open>whereMask\<close>.
\<close>

definition zeroClippedIndices :: "int tensor \<Rightarrow> int tensor option" where
  "zeroClippedIndices indices = maximum indices (zerosLike indices)"

definition gathered :: "'a tensor \<Rightarrow> int tensor \<Rightarrow> nat \<Rightarrow> 'a tensor option" where
  "gathered x indices axis = do {
     clipped \<leftarrow> zeroClippedIndices indices;
     gather x clipped axis
   }"

definition isPositive :: "int tensor \<Rightarrow> nat \<Rightarrow> bool tensor option" where
  "isPositive indices gatheredRank = do {
     p \<leftarrow> greaterEqual indices (scalar 0 Int32);
     Some (expandLoop 0 gatheredRank p)
   }"

definition bools :: "'a::one tensor \<Rightarrow> bool tensor option" where
  "bools g = equalOp (onesLike g) (scalar 1 Float32)"

definition whereMask :: "int tensor \<Rightarrow> 'a::one tensor \<Rightarrow> bool tensor option" where
  "whereMask indices g = do {
     p \<leftarrow> isPositive indices (rank g);
     b \<leftarrow> bools g;
     logicalAnd p b
   }"

section \<open>Errors and call arguments\<close>

text \<open>
  The exceptions the operator can end with. \<open>ArgumentNotTensor key functionName\<close> is
  thrown by \<^verbatim>\<open>util.assertArgumentsAreTensors\<close>, \<open>AssertionFailed msg\<close> by
  \<^verbatim>\<open>util.assert\<close> with the message the caller passes; both are the validation
  errors of section 7. \<open>ShapeMismatchError\<close> and \<open>RangeError\<close> are the other two
  errors of that section. \<open>Unspecified\<close> stands for a call outside every contract
  the spec gives (a negative segment count): the model says nothing about its outcome.
\<close>

datatype error =
    ArgumentNotTensor string string
  | AssertionFailed string
  | ShapeMismatchError
  | RangeError
  | Unspecified

definition isValidationError :: "error \<Rightarrow> bool" where
  "isValidationError e =
     (case e of ArgumentNotTensor k f \<Rightarrow> True | AssertionFailed m \<Rightarrow> True | _ \<Rightarrow> False)"

text \<open>
  TypeScript's types are erased at run time: an argument declared a tensor can be any
  value, and \<^verbatim>\<open>numSegments: number\<close> can be any double, a fraction, \<^verbatim>\<open>NaN\<close> or an
  infinity.
\<close>

datatype 'a jsarg = NotTensor | IsTensor "'a tensor"

datatype number = Num rat | NaN | Infinity | NegInfinity

text \<open>
  Modelled from the spec: \<^verbatim>\<open>util.assertArgumentsAreTensors\<close>, \<^verbatim>\<open>util.assert\<close> and
  \<^verbatim>\<open>util.isInt\<close> (sections 6 and 7: "argument-presence and dtype/integrality
  assertions raising a descriptive error"). The arguments are checked in the order the
  object literal \<^verbatim>\<open>{x, segmentIds}\<close> lists them; \<open>None\<close> means that nothing was
  thrown.
\<close>

fun assertArgumentsAreTensors :: "(string \<times> bool) list \<Rightarrow> string \<Rightarrow> error option" where
  "assertArgumentsAreTensors [] functionName = None"
| "assertArgumentsAreTensors ((key, isTensor) # args) functionName =
     (if isTensor then assertArgumentsAreTensors args functionName
      else Some (ArgumentNotTensor key functionName))"

definition assert :: "bool \<Rightarrow> string \<Rightarrow> error option" where
  "assert expr msg = (if expr then None else Some (AssertionFailed msg))"

fun isInt :: "number \<Rightarrow> bool" where
  "isInt (Num q) = (q = of_int \<lfloor>q\<rfloor>)"
| "isInt NaN = False"
| "isInt Infinity = False"
| "isInt NegInfinity = False"

fun isTensorArg :: "'a jsarg \<Rightarrow> bool" where
  "isTensorArg NotTensor = False"
| "isTensorArg (IsTensor t) = True"

section \<open>The axis helpers\<close>

text \<open>
  The module \<^verbatim>\<open>axis_util\<close> is imported by the operator and is not part of the
  verified file. The operator is modelled over a record of the three functions it
  calls, so that what lines 55 to 75 do with their results is stated for any such
  helper. The source indexes the result of \<^verbatim>\<open>getInnerMostAxes\<close> with \<^verbatim>\<open>[0]\<close>, which
  is \<^verbatim>\<open>undefined\<close> on an empty array: \<open>listHead\<close>.
\<close>

record axis_util =
  getAxesPermutation :: "nat list \<Rightarrow> nat \<Rightarrow> error + nat list option"
  getInnerMostAxes :: "nat \<Rightarrow> nat \<Rightarrow> nat list"
  getUndoAxesPermutation :: "nat list \<Rightarrow> nat list"

fun listHead :: "'a list \<Rightarrow> 'a option" where
  "listHead [] = None"
| "listHead (a # as) = Some a"

definition indexOf :: "'a \<Rightarrow> 'a list \<Rightarrow> nat" where
  "indexOf a xs = length (takeWhile (\<lambda>y. y \<noteq> a) xs)"

text \<open>
  Modelled from the spec: \<^verbatim>\<open>axis_util.getAxesPermutation\<close>, the permutation of the
  AxisNormalizer (section 4.1): "If axis == 0, permutation is absent"; "otherwise,
  permutation is computed such that applying it moves axis to position 0 while
  preserving the relative order of all other dimensions"; an invalid axis "must fail
  with an out-of-range error". The cases are taken in the order the spec lists them.
  The spec describes the normalizer for one axis and the source passes the list of one
  axis; any other list is refused.
\<close>

fun normalizerPermutation :: "nat list \<Rightarrow> nat \<Rightarrow> error + nat list option" where
  "normalizerPermutation [axis] r =
     (if axis = 0 then Inr None
      else if axis < r then Inr (Some (axis # filter (\<lambda>i. i \<noteq> axis) [0 ..< r]))
      else Inl RangeError)"
| "normalizerPermutation axes r = Inl RangeError"

text \<open>
  Modelled from the spec: \<^verbatim>\<open>axis_util.getUndoAxesPermutation\<close> (section 4.1:
  "denormalize applies the permutation's inverse"): entry \<open>a\<close> of the result is the
  place of \<open>a\<close> in the permutation.
\<close>

definition inversePermutation :: "nat list \<Rightarrow> nat list" where
  "inversePermutation perm = map (\<lambda>a. indexOf a perm) [0 ..< length perm]"

text \<open>
  The helper as the spec describes it. The spec does not describe
  \<^verbatim>\<open>getInnerMostAxes\<close>, which stays a parameter.
\<close>

definition specAxisUtil :: "(nat \<Rightarrow> nat \<Rightarrow> nat list) \<Rightarrow> axis_util" where
  "specAxisUtil inner =
     \<lparr>getAxesPermutation = normalizerPermutation,
      getInnerMostAxes = inner,
      getUndoAxesPermutation = inversePermutation\<rparr>"

text \<open>
  Modelled from the spec: \<^verbatim>\<open>Tensor.transpose\<close> (section 6:
  \<^verbatim>\<open>transpose(array, permutation)\<close>). Dimension \<open>k\<close> of the result is dimension
  \<open>perm ! k\<close> of the array; a list that is not a permutation of the array's dimensions
  is a shape mismatch.
\<close>

definition transposeT :: "'a tensor \<Rightarrow> nat list \<Rightarrow> error + 'a tensor" where
  "transposeT x perm =
     (if length perm = rank x \<and> list_all (\<lambda>a. a \<in> set perm) [0 ..< rank x]
      then Inr \<lparr>dtype = dtype x, shape = map (\<lambda>j. shape x ! j) perm,
                valAt = (\<lambda>idx. valAt x (map (\<lambda>a. idx ! indexOf a perm) [0 ..< rank x]))\<rparr>
      else Inl ShapeMismatchError)"

section \<open>The kernel executor and the engine\<close>

text \<open>
  Modelled from the spec: \<^verbatim>\<open>backend.unsortedSegmentSum\<close>, the external kernel
  executor (section 4.2, step 2): it "returns an array of shape [numSegments, ...]
  where slot s equals the elementwise sum of every input slice i with
  segmentIds[i] == s, and slot s is all-zero if no input slice maps to s". Its
  preconditions are those of section 4.2: the segment count is a non-negative integer
  (anything else is outside the contract), and the length of the segment ids is the
  size of dimension 0 of the array (anything else is the shape mismatch of section 7).
\<close>

definition backendUnsortedSegmentSum ::
  "'a::comm_monoid_add tensor \<Rightarrow> int tensor \<Rightarrow> number \<Rightarrow> error + 'a tensor" where
  "backendUnsortedSegmentSum x segmentIds numSegments =
     (case numSegments of
        Num q \<Rightarrow>
          if isInt numSegments \<and> 0 \<le> q
          then (case shape x of
                  [] \<Rightarrow> Inl ShapeMismatchError
                | n # trailing \<Rightarrow>
                    if shape segmentIds = [n]
                    then Inr \<lparr>dtype = dtype x, shape = nat \<lfloor>q\<rfloor> # trailing,
                               valAt = (\<lambda>idx. case idx of
                                       [] \<Rightarrow> 0
                                     | s # rest \<Rightarrow>
                                         sum_list (map (\<lambda>i. valAt x (int i # rest))
                                           (filter (\<lambda>i. valAt segmentIds [int i] = s) [0 ..< n])))\<rparr>
                    else Inl ShapeMismatchError)
          else Inl Unspecified
      | _ \<Rightarrow> Inl Unspecified)"

text \<open>
  The gradient closure of lines 62 to 67, as the values it captures: the segment ids
  and the variable \<open>axis\<close> (\<open>None\<close> when it is \<^verbatim>\<open>undefined\<close>). Applied to the
  upstream gradient it returns the object \<^verbatim>\<open>{permutedX: derX}\<close>, here the key with
  the value of the thunk. The spec says nothing of a gather along an undefined axis;
  the thunk has no value then.
\<close>

record gradFunc =
  segmentIdsOf :: "int tensor"
  axisOf :: "nat option"

definition applyGradFunc ::
  "gradFunc \<Rightarrow> 'a::{zero,one} tensor \<Rightarrow> (string \<times> 'a tensor option) list" where
  "applyGradFunc g dy =
     [(''permutedX'',
       case axisOf g of
         None \<Rightarrow> None
       | Some axis \<Rightarrow> gatherDropNegatives dy (segmentIdsOf g) axis)]"

text \<open>
  The state of the engine that the operator changes: the kernel calls dispatched to the
  backend, each with its arguments, and the tape of recorded operations, each with its
  named inputs, its output and its gradient closure.
\<close>

record 'a kernelCall =
  kernelX :: "'a tensor"
  kernelSegmentIds :: "int tensor"
  kernelNumSegments :: number

record 'a tapeNode =
  nodeInputs :: "(string \<times> 'a tensor) list"
  nodeOutput :: "'a tensor"
  nodeGradient :: gradFunc

record 'a engine =
  dispatched :: "'a kernelCall list"
  tape :: "'a tapeNode list"

text \<open>
  Modelled from the spec: \<^verbatim>\<open>ENV.engine.runKernel\<close> (section 6): it "dispatches
  deviceFn against the current backend and records gradientFn against the given named
  inputs for later reverse-mode invocation". The device function of line 69 is the call
  of the backend's \<^verbatim>\<open>unsortedSegmentSum\<close> on the three arguments; a kernel that throws
  leaves nothing on the tape.
\<close>

definition runKernel ::
  "'a::comm_monoid_add kernelCall \<Rightarrow> (string \<times> 'a tensor) list \<Rightarrow> gradFunc \<Rightarrow> 'a engine
    \<Rightarrow> (error + 'a tensor) \<times> 'a engine" where
  "runKernel call ins grad eng =
     (let eng1 = eng\<lparr>dispatched := dispatched eng @ [call]\<rparr>
      in case backendUnsortedSegmentSum (kernelX call) (kernelSegmentIds call)
                (kernelNumSegments call) of
           Inl e \<Rightarrow> (Inl e, eng1)
         | Inr res \<Rightarrow>
             (Inr res,
              eng1\<lparr>tape := tape eng1 @ [\<lparr>nodeInputs = ins, nodeOutput = res, nodeGradient = grad\<rparr>]\<rparr>))"

section \<open>unsortedSegmentSum\<close>

text \<open>
  Lines 55 to 75 of \<^verbatim>\<open>SegmentOps.unsortedSegmentSum\<close>, the part after the
  validations. The permutation for the axis 0 is asked of the axis helper; when there is
  one, \<open>x\<close> is transposed and \<open>axis\<close> becomes the first of
  \<^verbatim>\<open>getInnerMostAxes(1, x.rank)\<close>. The closure captures the segment ids and \<open>axis\<close>;
  the kernel runs on the permuted array and the gradient is recorded under the key
  \<^verbatim>\<open>permutedX\<close>; when there is a permutation the result is transposed back.
\<close>

definition normalizeX ::
  "axis_util \<Rightarrow> 'a tensor \<Rightarrow> nat list option \<Rightarrow> error + ('a tensor \<times> nat option)" where
  "normalizeX au x permutation =
     (case permutation of
        None \<Rightarrow> Inr (x, Some 0)
      | Some perm \<Rightarrow>
          (case transposeT x perm of
             Inl e \<Rightarrow> Inl e
           | Inr px \<Rightarrow> Inr (px, listHead (getInnerMostAxes au 1 (rank x)))))"

definition reduceSegments ::
  "axis_util \<Rightarrow> 'a::{comm_monoid_add,one} engine \<Rightarrow> 'a tensor \<Rightarrow> int tensor \<Rightarrow> number
    \<Rightarrow> (error + 'a tensor) \<times> 'a engine" where
  "reduceSegments au eng x segmentIds numSegments =
     (case getAxesPermutation au [0] (rank x) of
        Inl e \<Rightarrow> (Inl e, eng)
      | Inr permutation \<Rightarrow>
          (case normalizeX au x permutation of
             Inl e \<Rightarrow> (Inl e, eng)
           | Inr (permutedX, axis) \<Rightarrow>
               (let gradFunc = \<lparr>segmentIdsOf = segmentIds, axisOf = axis\<rparr>;
                    (result, eng1) =
                       runKernel
                         \<lparr>kernelX = permutedX, kernelSegmentIds = segmentIds,
                          kernelNumSegments = numSegments\<rparr>
                         [(''permutedX'', permutedX)] gradFunc eng
                in case result of
                     Inl e \<Rightarrow> (Inl e, eng1)
                   | Inr res \<Rightarrow>
                       (case permutation of
                          None \<Rightarrow> (Inr res, eng1)
                        | Some perm \<Rightarrow>
                            (transposeT res (getUndoAxesPermutation au perm), eng1)))))"

text \<open>
  \<^verbatim>\<open>SegmentOps.unsortedSegmentSum(x, segmentIds, numSegments)\<close>, lines 48 to 76: the
  three validations of lines 50 to 53 in the source's order, each ending the call with
  its error and the engine as it was, then the reduction. Once
  \<^verbatim>\<open>assertArgumentsAreTensors\<close> has passed, both arguments are tensors
  (the last case is never taken: \<open>unsortedSegmentSum_not_tensor\<close> below).
\<close>

definition unsortedSegmentSum ::
  "axis_util \<Rightarrow> 'a::{comm_monoid_add,one} engine \<Rightarrow> 'a jsarg \<Rightarrow> int jsarg \<Rightarrow> number
    \<Rightarrow> (error + 'a tensor) \<times> 'a engine" where
  "unsortedSegmentSum au eng xArg segmentIdsArg numSegments =
     (case assertArgumentsAreTensors
             [(''x'', isTensorArg xArg), (''segmentIds'', isTensorArg segmentIdsArg)]
             ''unsortedSegmentSum'' of
        Some e \<Rightarrow> (Inl e, eng)
      | None \<Rightarrow>
          (case (xArg, segmentIdsArg) of
             (IsTensor x, IsTensor segmentIds) \<Rightarrow>
               (case assert (dtype segmentIds = Int32)
                       ''segmentIds must be of dtype `int32`'' of
                  Some e \<Rightarrow> (Inl e, eng)
                | None \<Rightarrow>
                    (case assert (isInt numSegments) ''numSegments must be of dtype int'' of
                       Some e \<Rightarrow> (Inl e, eng)
                     | None \<Rightarrow> reduceSegments au eng x segmentIds numSegments))
           | _ \<Rightarrow> (Inl Unspecified, eng)))"

section \<open>Example inputs\<close>

text \<open>
  The inputs of the spec's two concrete scenarios (section 8), and the further tensors
  and helpers at which theorems are instantiated. Elements are integers here; the
  operator never computes with them beyond the kernel's sum.
\<close>

definition emptyEngine :: "int engine" where
  "emptyEngine = \<lparr>dispatched = [], tape = []\<rparr>"

definition x1234 :: "int tensor" where
  "x1234 = \<lparr>dtype = Float32, shape = [4],
     valAt = (\<lambda>idx. if idx = [0] then 1 else if idx = [1] then 2
                    else if idx = [2] then 3 else if idx = [3] then 4 else 0)\<rparr>"

definition ids1201 :: "int tensor" where
  "ids1201 = \<lparr>dtype = Int32, shape = [4],
     valAt = (\<lambda>idx. if idx = [0] then 1 else if idx = [1] then 2
                    else if idx = [2] then 0 else if idx = [3] then 1 else 0)\<rparr>"

definition x1020 :: "int tensor" where
  "x1020 = \<lparr>dtype = Float32, shape = [2],
     valAt = (\<lambda>idx. if idx = [0] then 10 else if idx = [1] then 20 else 0)\<rparr>"

definition idsNeg0 :: "int tensor" where
  "idsNeg0 = \<lparr>dtype = Int32, shape = [2],
     valAt = (\<lambda>idx. if idx = [0] then - 1 else 0)\<rparr>"

definition dyOne :: "int tensor" where
  "dyOne = \<lparr>dtype = Float32, shape = [1], valAt = (\<lambda>idx. if idx = [0] then 1 else 0)\<rparr>"

text \<open>An array of shape \<open>[2, 2]\<close> with the rows \<open>[1, 2]\<close> and \<open>[3, 4]\<close>.\<close>

definition x22 :: "int tensor" where
  "x22 = \<lparr>dtype = Float32, shape = [2, 2],
     valAt = (\<lambda>idx. if idx = [0, 0] then 1 else if idx = [0, 1] then 2
                    else if idx = [1, 0] then 3 else if idx = [1, 1] then 4 else 0)\<rparr>"


text \<open>
  An upstream gradient with no slot (the operator's output for zero segments), and
  segment ids that place their one element in no segment.
\<close>

definition dyEmpty :: "int tensor" where
  "dyEmpty = \<lparr>dtype = Float32, shape = [0], valAt = (\<lambda>idx. 0)\<rparr>"

definition idsOnlyNeg :: "int tensor" where
  "idsOnlyNeg = \<lparr>dtype = Int32, shape = [1], valAt = (\<lambda>idx. - 1)\<rparr>"

text \<open>
  Two values for what the spec leaves open. \<open>innerMost\<close> lists the last \<open>numAxes\<close>
  of \<open>r\<close> dimensions. \<open>innerAxisUtil\<close> is an axis helper of another design than the
  spec's normalizer: it moves the given axes behind all others and has no permutation
  when they are the last ones already. With it the case of line 58 is taken at axis 0
  for every array of rank two or more.
\<close>

definition innerMost :: "nat \<Rightarrow> nat \<Rightarrow> nat list" where
  "innerMost numAxes r = [r - numAxes ..< r]"

definition innerAxisUtil :: axis_util where
  "innerAxisUtil =
     \<lparr>getAxesPermutation =
        (\<lambda>axes r. Inr (if axes = innerMost (length axes) r then None
                        else Some (filter (\<lambda>i. i \<notin> set axes) [0 ..< r] @ axes))),
      getInnerMostAxes = innerMost,
      getUndoAxesPermutation = inversePermutation\<rparr>"

section \<open>Validation comes before the kernel\<close>

lemma unsortedSegmentSum_validated:
  "unsortedSegmentSum au eng (IsTensor x) (IsTensor segmentIds) numSegments =
     (if dtype segmentIds \<noteq> Int32
      then (Inl (AssertionFailed ''segmentIds must be of dtype `int32`''), eng)
      else if \<not> isInt numSegments
      then (Inl (AssertionFailed ''numSegments must be of dtype int''), eng)
      else reduceSegments au eng x segmentIds numSegments)"
  by (simp add: unsortedSegmentSum_def assert_def)

lemma unsortedSegmentSum_not_tensor:
  "\<not> isTensorArg xArg \<or> \<not> isTensorArg segmentIdsArg \<Longrightarrow>
   unsortedSegmentSum au eng xArg segmentIdsArg numSegments =
     (Inl (ArgumentNotTensor (if isTensorArg xArg then ''segmentIds'' else ''x'')
             ''unsortedSegmentSum''), eng)"
  by (auto simp: unsortedSegmentSum_def)

text \<open>
  Claim C6. A call with an argument that is not a tensor, with segment ids whose element
  type is not \<^verbatim>\<open>int32\<close>, or with a segment count that is not an integer ends with a
  validation error, and the three errors differ from each other. The call returns the
  engine it was given: no kernel call has been dispatched and nothing has been recorded.
  This holds whatever the axis helper does. The checks run in the source's order, so a
  call that fails several of them ends with the error of the first.
\<close>

theorem unsortedSegmentSum_validation_first:
  "(\<not> isTensorArg xArg \<or> \<not> isTensorArg segmentIdsArg \<longrightarrow>
      unsortedSegmentSum au eng xArg segmentIdsArg numSegments =
        (Inl (ArgumentNotTensor (if isTensorArg xArg then ''segmentIds'' else ''x'')
                ''unsortedSegmentSum''), eng)) \<and>
   (dtype segmentIds \<noteq> Int32 \<longrightarrow>
      unsortedSegmentSum au eng (IsTensor x) (IsTensor segmentIds) numSegments =
        (Inl (AssertionFailed ''segmentIds must be of dtype `int32`''), eng)) \<and>
   (dtype segmentIds = Int32 \<and> \<not> isInt numSegments \<longrightarrow>
      unsortedSegmentSum au eng (IsTensor x) (IsTensor segmentIds) numSegments =
        (Inl (AssertionFailed ''numSegments must be of dtype int''), eng)) \<and>
   isValidationError (ArgumentNotTensor key ''unsortedSegmentSum'') \<and>
   isValidationError (AssertionFailed ''segmentIds must be of dtype `int32`'') \<and>
   isValidationError (AssertionFailed ''numSegments must be of dtype int'') \<and>
   ArgumentNotTensor key ''unsortedSegmentSum''
     \<noteq> AssertionFailed ''segmentIds must be of dtype `int32`'' \<and>
   ArgumentNotTensor key ''unsortedSegmentSum''
     \<noteq> AssertionFailed ''numSegments must be of dtype int'' \<and>
   AssertionFailed ''segmentIds must be of dtype `int32`''
     \<noteq> AssertionFailed ''numSegments must be of dtype int''"
  by (simp add: unsortedSegmentSum_validated unsortedSegmentSum_not_tensor
        isValidationError_def)

theorem unsortedSegmentSum_validation_first_witness:
  "unsortedSegmentSum (specAxisUtil innerMost) emptyEngine NotTensor (IsTensor idsNeg0)
       (Num 1) =
     (Inl (ArgumentNotTensor ''x'' ''unsortedSegmentSum''), emptyEngine) \<and>
   unsortedSegmentSum (specAxisUtil innerMost) emptyEngine (IsTensor x1020) NotTensor
       (Num 1) =
     (Inl (ArgumentNotTensor ''segmentIds'' ''unsortedSegmentSum''), emptyEngine) \<and>
   unsortedSegmentSum (specAxisUtil innerMost) emptyEngine (IsTensor x1020)
       (IsTensor (idsNeg0\<lparr>dtype := Float32\<rparr>)) (Num 1) =
     (Inl (AssertionFailed ''segmentIds must be of dtype `int32`''), emptyEngine) \<and>
   unsortedSegmentSum (specAxisUtil innerMost) emptyEngine (IsTensor x1020)
       (IsTensor idsNeg0) (Num (5 / 2)) =
     (Inl (AssertionFailed ''numSegments must be of dtype int''), emptyEngine) \<and>
   dispatched emptyEngine = []"
proof -
  have frac: "\<not> isInt (Num (5 / 2))" by code_simp
  have a: "unsortedSegmentSum (specAxisUtil innerMost) emptyEngine NotTensor
             (IsTensor idsNeg0) (Num 1) =
           (Inl (ArgumentNotTensor ''x'' ''unsortedSegmentSum''), emptyEngine)"
    using unsortedSegmentSum_validation_first
      [of NotTensor "IsTensor idsNeg0" "specAxisUtil innerMost" emptyEngine "Num 1"]
    by simp
  have b: "unsortedSegmentSum (specAxisUtil innerMost) emptyEngine (IsTensor x1020)
             NotTensor (Num 1) =
           (Inl (ArgumentNotTensor ''segmentIds'' ''unsortedSegmentSum''), emptyEngine)"
    using unsortedSegmentSum_validation_first
      [of "IsTensor x1020" NotTensor "specAxisUtil innerMost" emptyEngine "Num 1"]
    by simp
  have c: "unsortedSegmentSum (specAxisUtil innerMost) emptyEngine (IsTensor x1020)
             (IsTensor (idsNeg0\<lparr>dtype := Float32\<rparr>)) (Num 1) =
           (Inl (AssertionFailed ''segmentIds must be of dtype `int32`''), emptyEngine)"
    using unsortedSegmentSum_validation_first
      [of _ _ "specAxisUtil innerMost" emptyEngine "Num 1"
          "idsNeg0\<lparr>dtype := Float32\<rparr>" x1020]
    by simp
  have d: "unsortedSegmentSum (specAxisUtil innerMost) emptyEngine (IsTensor x1020)
             (IsTensor idsNeg0) (Num (5 / 2)) =
           (Inl (AssertionFailed ''numSegments must be of dtype int''), emptyEngine)"
    using frac unsortedSegmentSum_validation_first
      [of _ _ "specAxisUtil innerMost" emptyEngine "Num (5 / 2)" idsNeg0 x1020]
    by (simp add: idsNeg0_def)
  show ?thesis using a b c d by (simp add: emptyEngine_def)
qed

section \<open>The primitives on the shapes the backward pass meets\<close>

lemma broadcastShapeRev_same: "broadcastShapeRev sh sh = Some sh"
  by (induction sh) auto

lemma broadcastShape_same: "broadcastShape sh sh = Some sh"
  by (simp add: broadcastShape_def broadcastShapeRev_same)

lemma broadcastShapeRev_Nil2: "broadcastShapeRev sh [] = Some sh"
  by (cases sh) auto

lemma broadcastShape_scalar: "broadcastShape sh [] = Some sh"
  by (simp add: broadcastShape_def broadcastShapeRev_Nil2)

lemma broadcastShape_col: "broadcastShape [n, Suc 0] [n, d] = Some [n, d]"
  by (simp add: broadcastShape_def)

lemma stretch_inRange:
  "list_all2 (\<lambda>i d. 0 \<le> i \<and> i < int d) idx sh \<Longrightarrow>
   map (\<lambda>(d, i). if d = 1 then 0 else i) (zip sh idx) = idx"
  by (induction idx sh rule: list_all2_induct) auto

lemma inRange_length: "inRange sh idx \<Longrightarrow> length idx = length sh"
  by (simp add: inRange_def list_all2_lengthD)

lemma inRange_take: "inRange sh idx \<Longrightarrow> inRange (take k sh) (take k idx)"
  by (simp add: inRange_def list_all2_takeI)

text \<open>Inside the array, broadcasting an operand to its own shape reads it in place.\<close>

lemma broadcastIndex_inRange: "inRange sh idx \<Longrightarrow> broadcastIndex sh idx = idx"
proof -
  assume r: "inRange sh idx"
  then have "length idx = length sh" by (rule inRange_length)
  moreover from r have "map (\<lambda>(d, i). if d = 1 then 0 else i) (zip sh idx) = idx"
    unfolding inRange_def by (rule stretch_inRange)
  ultimately show ?thesis
    unfolding broadcastIndex_def by (simp only: diff_self_eq_0 drop_0)
qed

text \<open>
  A position inside the broadcast shape is read inside each operand: along every
  dimension the operand has the result's size, or size one and the index 0.
\<close>

lemma stretch_stays_inRange:
  "list_all2 (\<lambda>i d. 0 \<le> i \<and> i < int d) ri ra \<Longrightarrow>
   list_all2 (\<lambda>i d. 0 \<le> i \<and> i < int d)
     (map (\<lambda>(d, i). if d = 1 then 0 else i) (zip ra ri)) ra"
  by (induction ri ra rule: list_all2_induct) auto

lemma broadcastShapeRev_inRange:
  "broadcastShapeRev ra rb = Some rc \<Longrightarrow>
   list_all2 (\<lambda>i d. 0 \<le> i \<and> i < int d) ri rc \<Longrightarrow>
   list_all2 (\<lambda>i d. 0 \<le> i \<and> i < int d)
     (map (\<lambda>(d, i). if d = 1 then 0 else i) (zip ra ri)) ra"
proof (induction ra rb arbitrary: rc ri rule: broadcastShapeRev.induct)
  case (1 bs)
  then show ?case by simp
next
  case (2 a as)
  then show ?case using stretch_stays_inRange[of ri "a # as"] by simp
next
  case (3 a as b bs)
  from "3.prems"(1) obtain c cs where rc: "rc = c # cs"
    and cs: "broadcastShapeRev as bs = Some cs"
    and c: "c = a \<or> a = 1"
    by (auto split: if_splits)
  from "3.prems"(2) rc obtain i js where ri: "ri = i # js"
    and i: "0 \<le> i" "i < int c"
    and rest: "list_all2 (\<lambda>i d. 0 \<le> i \<and> i < int d) js cs"
    by (auto simp: list_all2_Cons2)
  have "list_all2 (\<lambda>i d. 0 \<le> i \<and> i < int d)
          (map (\<lambda>(d, i). if d = 1 then 0 else i) (zip as js)) as"
  proof (cases "a = b \<or> b = 1")
    case True
    from "3.IH"(1)[OF True cs rest] show ?thesis .
  next
    case False
    with "3.prems"(1) have a1: "a = 1" by (auto split: if_splits)
    from "3.IH"(2)[OF False a1 cs rest] show ?thesis .
  qed
  with c i show ?case by (auto simp: ri)
qed

lemma broadcastShapeRev_length:
  "broadcastShapeRev ra rb = Some rc \<Longrightarrow> length ra \<le> length rc"
  by (induction ra rb arbitrary: rc rule: broadcastShapeRev.induct)
     (auto split: if_splits)

lemma zip_take_left: "zip xs (take (length xs) ys) = zip xs ys"
proof (induction xs arbitrary: ys)
  case Nil
  show ?case by simp
next
  case (Cons x xs)
  then show ?case by (cases ys) simp_all
qed

lemma broadcastIndex_stays_inRange:
  assumes "broadcastShape sa sb = Some sc" and "inRange sc idx"
  shows "inRange sa (broadcastIndex sa idx)"
proof -
  from assms(1) obtain rc where rc: "broadcastShapeRev (rev sa) (rev sb) = Some rc"
    and sc: "sc = rev rc"
    by (auto simp: broadcastShape_def)
  have len: "length idx = length rc"
    using assms(2) sc by (simp add: inRange_def list_all2_lengthD)
  have le: "length sa \<le> length idx"
    using broadcastShapeRev_length[OF rc] len by simp
  have "list_all2 (\<lambda>i d. 0 \<le> i \<and> i < int d) (rev idx) rc"
    using assms(2) sc by (simp add: inRange_def list_all2_rev1)
  from broadcastShapeRev_inRange[OF rc this]
  have r: "list_all2 (\<lambda>i d. 0 \<le> i \<and> i < int d)
             (map (\<lambda>(d, i). if d = 1 then 0 else i) (zip (rev sa) (rev idx))) (rev sa)" .
  have "zip (rev sa) (rev idx) = zip (rev sa) (take (length sa) (rev idx))"
    using zip_take_left[of "rev sa" "rev idx"] by simp
  also have "take (length sa) (rev idx) = rev (drop (length idx - length sa) idx)"
    using le by (simp add: rev_drop)
  also have "zip (rev sa) (rev (drop (length idx - length sa) idx))
               = rev (zip sa (drop (length idx - length sa) idx))"
    using le by (simp add: zip_rev)
  finally have "map (\<lambda>(d, i). if d = 1 then 0 else i) (zip (rev sa) (rev idx))
                  = rev (broadcastIndex sa idx)"
    by (simp add: broadcastIndex_def rev_map)
  with r show ?thesis by (simp add: inRange_def list_all2_rev1)
qed

lemma broadcastIndex_1: "0 \<le> i \<Longrightarrow> i < int n \<Longrightarrow> broadcastIndex [n] [i] = [i]"
  by (rule broadcastIndex_inRange) (simp add: inRange_def)

lemma broadcastIndex_col:
  "0 \<le> i \<Longrightarrow> i < int n \<Longrightarrow> broadcastIndex [n, Suc 0] [i, j] = [i, 0]"
  by (auto simp: broadcastIndex_def)

lemma zeroClippedIndices_value:
  "zeroClippedIndices indices =
     Some \<lparr>dtype = dtype indices, shape = shape indices,
           valAt = (\<lambda>idx. max (valAt indices (broadcastIndex (shape indices) idx)) 0)\<rparr>"
  by (simp add: zeroClippedIndices_def maximum_def broadcastOp_def zerosLike_def
        broadcastShape_same)

lemma greaterEqual_zero:
  "greaterEqual indices (scalar 0 Int32) =
     Some \<lparr>dtype = Bool, shape = shape indices,
           valAt = (\<lambda>idx. 0 \<le> valAt indices (broadcastIndex (shape indices) idx))\<rparr>"
  by (simp add: greaterEqual_def broadcastOp_def scalar_def broadcastShape_scalar)

lemma bools_value:
  "bools g = Some \<lparr>dtype = Bool, shape = shape g, valAt = (\<lambda>idx. True)\<rparr>"
  by (simp add: bools_def equalOp_def broadcastOp_def scalar_def onesLike_def
        broadcastShape_scalar)

lemma gathered_value:
  "shape indices = [n] \<Longrightarrow> axis < rank x \<Longrightarrow>
   gathered x indices axis =
     Some \<lparr>dtype = dtype x, shape = (shape x)[axis := n],
           valAt = (\<lambda>idx. valAt x
                     (idx[axis := max (valAt indices (broadcastIndex [n] [idx ! axis])) 0]))\<rparr>"
  by (simp add: gathered_def zeroClippedIndices_value gather_def)

text \<open>The function is the composition of its named locals.\<close>

lemma gatherDropNegatives_steps:
  "gatherDropNegatives x indices axis = do {
     g \<leftarrow> gathered x indices axis;
     c \<leftarrow> whereMask indices g;
     whereOp c g (zerosLike g)
   }"
  by (simp add: gatherDropNegatives_def gathered_def whereMask_def isPositive_def
        zeroClippedIndices_def bools_def greaterEqual_zero bools_value[unfolded bools_def]
        zeroClippedIndices_value[unfolded zeroClippedIndices_def]
      split: Option.bind_splits)

section \<open>The loop that expands the mask\<close>

lemma expandDims_last:
  "expandDims t (- 1) = t\<lparr>shape := shape t @ [1],
      valAt := (\<lambda>idx. valAt t (take (rank t) idx @ drop (Suc (rank t)) idx))\<rparr>"
  by (simp add: expandDims_def rank_def Let_def)

lemma rank_expandDims_last: "rank (expandDims t (- 1)) = Suc (rank t)"
  by (simp add: expandDims_last rank_def)

lemma expandLoop_stop:
  "\<not> int i < int g - int (rank t) \<Longrightarrow> expandLoop i g t = t"
  by (subst expandLoop.simps) simp

lemma expandLoop_step:
  "int i < int g - int (rank t) \<Longrightarrow>
   expandLoop i g t = expandLoop (Suc i) g (expandDims t (- 1))"
  by (subst expandLoop.simps) simp

text \<open>
  For a mask of rank one the loop adds nothing under a gathered array of rank one and
  one dimension under a gathered array of rank two. Under a gathered array of rank three
  it adds one dimension as well, not two: after the first pass \<open>i\<close> is 1 and the
  difference of the ranks is 1, so the condition \<open>i < 1\<close> ends the loop.
\<close>

lemma expandLoop_rank1: "rank t = Suc 0 \<Longrightarrow> expandLoop 0 (Suc 0) t = t"
  by (simp add: expandLoop_stop)

lemma expandLoop_rank2:
  "rank t = Suc 0 \<Longrightarrow> expandLoop 0 (Suc (Suc 0)) t = expandDims t (- 1)"
  by (simp add: expandLoop_step expandLoop_stop rank_expandDims_last)


text \<open>
  In general the loop stops when \<open>i\<close> has caught up with a difference that shrinks
  with every pass: it runs half as often as the ranks differ, rounded up. From a mask of
  rank one the expanded mask stays short of every gathered array of rank three or more.
\<close>

lemma expandLoop_rank:
  "int (rank (expandLoop i g t)) =
     (if int i < int g - int (rank t)
      then int (rank t) + (int g - int (rank t) - int i + 1) div 2
      else int (rank t))"
proof (induction i g t rule: expandLoop.induct)
  case (1 i g t)
  show ?case
  proof (cases "int i < int g - int (rank t)")
    case True
    from "1.IH"[OF True] True show ?thesis
      by (simp add: expandLoop_step rank_expandDims_last) linarith
  next
    case False
    then show ?thesis by (simp add: expandLoop_stop)
  qed
qed

lemma expandLoop_too_short:
  assumes "rank t = 1" "3 \<le> g"
  shows "rank (expandLoop 0 g t) < g"
  using expandLoop_rank[of 0 g t] assms by (simp split: if_splits)

text \<open>
  Whatever the number of passes, the loop only appends dimensions: the shape of the mask
  it started from is a prefix of the result's shape, and the result is read through its
  leading indices.
\<close>

lemma expandLoop_shape:
  "take (rank t) (shape (expandLoop i g t)) = shape t \<and> rank t \<le> rank (expandLoop i g t)"
proof (induction i g t rule: expandLoop.induct)
  case (1 i g t)
  show ?case
  proof (cases "int i < int g - int (rank t)")
    case True
    from "1.IH"[OF True]
    have ih: "take (Suc (rank t)) (shape (expandLoop (i + 1) g (expandDims t (- 1))))
                = shape t @ [1]"
      and le: "Suc (rank t) \<le> rank (expandLoop (i + 1) g (expandDims t (- 1)))"
      by (simp_all add: rank_expandDims_last) (simp add: expandDims_last)
    have "take (rank t) (shape (expandLoop (i + 1) g (expandDims t (- 1))))
            = take (rank t)
                (take (Suc (rank t)) (shape (expandLoop (i + 1) g (expandDims t (- 1)))))"
      by (simp add: min_def)
    also have "\<dots> = shape t" by (simp only: ih) (simp add: rank_def)
    finally show ?thesis using True le by (simp add: expandLoop_step)
  next
    case False
    then show ?thesis by (simp add: rank_def expandLoop_stop)
  qed
qed

lemma expandLoop_valAt:
  "length idx = rank (expandLoop i g t) \<Longrightarrow>
   valAt (expandLoop i g t) idx = valAt t (take (rank t) idx)"
proof (induction i g t rule: expandLoop.induct)
  case (1 i g t)
  show ?case
  proof (cases "int i < int g - int (rank t)")
    case True
    then have eq: "expandLoop i g t = expandLoop (i + 1) g (expandDims t (- 1))"
      by (simp add: expandLoop_step)
    from "1.prems" eq
    have len: "length idx = rank (expandLoop (i + 1) g (expandDims t (- 1)))"
      by simp
    from "1.IH"[OF True len]
    have "valAt (expandLoop i g t) idx
            = valAt (expandDims t (- 1)) (take (Suc (rank t)) idx)"
      by (simp only: eq rank_expandDims_last)
    also have "\<dots> = valAt t (take (rank t) idx)"
      by (simp add: expandDims_last min_def)
    finally show ?thesis .
  next
    case False
    with "1.prems" show ?thesis by (simp add: rank_def expandLoop_stop)
  qed
qed

lemma isPositive_rank1:
  "shape indices = [n] \<Longrightarrow>
   isPositive indices (Suc 0) =
     Some \<lparr>dtype = Bool, shape = [n],
           valAt = (\<lambda>idx. 0 \<le> valAt indices (broadcastIndex [n] idx))\<rparr>"
  by (simp add: isPositive_def greaterEqual_zero rank_def expandLoop_rank1)

lemma isPositive_rank2:
  "shape indices = [n] \<Longrightarrow>
   isPositive indices (Suc (Suc 0)) =
     Some \<lparr>dtype = Bool, shape = [n, 1],
           valAt = (\<lambda>idx. 0 \<le> valAt indices
                     (broadcastIndex [n] (take (Suc 0) idx @ drop (Suc (Suc 0)) idx)))\<rparr>"
  by (simp add: isPositive_def greaterEqual_zero expandLoop_rank2 expandDims_last rank_def)


text \<open>
  Inside its shape the expanded mask holds, at every position, whether the segment id
  of the position's first index is non-negative.
\<close>

lemma isPositive_valAt:
  assumes "shape indices = [n]" "isPositive indices gr = Some p" "inRange (shape p) idx"
  shows "valAt p idx = (0 \<le> valAt indices [hd idx])"
proof -
  define p0 :: "bool tensor" where
    "p0 = \<lparr>dtype = Bool, shape = shape indices,
           valAt = (\<lambda>idx. 0 \<le> valAt indices (broadcastIndex (shape indices) idx))\<rparr>"
  have p: "p = expandLoop 0 gr p0"
    using assms(2) by (simp add: isPositive_def greaterEqual_zero p0_def)
  have r0: "rank p0 = 1" by (simp add: p0_def rank_def assms(1))
  have sh: "take 1 (shape p) = [n]"
    using expandLoop_shape[of p0 0 gr] by (simp add: p r0) (simp add: p0_def assms(1))
  have "inRange (take 1 (shape p)) (take 1 idx)" using assms(3) by (rule inRange_take)
  then have rng: "inRange [n] (take 1 idx)" by (simp only: sh)
  then have t1: "take 1 idx = [hd idx]"
    by (cases idx) (simp_all add: inRange_def)
  have "valAt p idx = valAt p0 (take 1 idx)"
    using expandLoop_valAt[of idx 0 gr p0] inRange_length[OF assms(3)]
    by (simp add: p r0[unfolded rank_def] rank_def)
  also have "\<dots> = (0 \<le> valAt indices (take 1 idx))"
    using broadcastIndex_inRange[OF rng] by (simp add: p0_def assms(1))
  finally show ?thesis by (simp only: t1)
qed

lemma whereMask_rank1:
  "shape indices = [n] \<Longrightarrow> shape g = [n] \<Longrightarrow>
   whereMask indices g =
     Some \<lparr>dtype = Bool, shape = [n],
       valAt = (\<lambda>idx. 0 \<le> valAt indices (broadcastIndex [n] (broadcastIndex [n] idx)))\<rparr>"
  by (simp add: whereMask_def isPositive_rank1 bools_value rank_def logicalAnd_def
        broadcastOp_def broadcastShape_same)

lemma whereMask_rank2:
  "shape indices = [n] \<Longrightarrow> shape g = [n, d] \<Longrightarrow>
   whereMask indices g =
     Some \<lparr>dtype = Bool, shape = [n, d],
       valAt = (\<lambda>idx. 0 \<le> valAt indices
                 (broadcastIndex [n] (take (Suc 0) (broadcastIndex [n, Suc 0] idx)
                    @ drop (Suc (Suc 0)) (broadcastIndex [n, Suc 0] idx))))\<rparr>"
  by (simp add: whereMask_def isPositive_rank2 bools_value rank_def logicalAnd_def
        broadcastOp_def broadcastShape_col)

section \<open>The backward reconstruction\<close>

text \<open>
  The spec's contract for the reconstruction (section 4.3) has the upstream gradient of
  shape \<open>[numSegments, ...]\<close> and the result of shape \<open>[N, ...]\<close>: the segment
  dimension is dimension 0, which is the axis the closure passes when no permutation was
  applied. For an upstream gradient of rank one or two, \<open>gatherDropNegatives\<close> at
  axis 0 returns, inside the result's shape, the gathered slice where the segment id is
  non-negative and zero where it is negative.
\<close>

lemma gatherDropNegatives_rank1:
  assumes "shape dy = [m]" "shape indices = [n]"
  shows "\<exists>r. gatherDropNegatives dy indices 0 = Some r \<and> shape r = [n] \<and>
           (\<forall>i. 0 \<le> i \<and> i < int n \<longrightarrow>
              valAt r [i] =
                (if 0 \<le> valAt indices [i] then valAt dy [valAt indices [i]] else 0))"
  using assms
  by (simp add: gatherDropNegatives_steps gathered_value rank_def whereMask_rank1
        whereOp_def zerosLike_def broadcastIndex_1)

lemma gatherDropNegatives_rank2:
  assumes "shape dy = [m, d]" "shape indices = [n]"
  shows "\<exists>r. gatherDropNegatives dy indices 0 = Some r \<and> shape r = [n, d] \<and>
           (\<forall>i j. 0 \<le> i \<and> i < int n \<longrightarrow>
              valAt r [i, j] =
                (if 0 \<le> valAt indices [i] then valAt dy [valAt indices [i], j] else 0))"
  using assms
  by (simp add: gatherDropNegatives_steps gathered_value rank_def whereMask_rank2
        whereOp_def zerosLike_def broadcastIndex_1 broadcastIndex_col)

text \<open>
  The spec's second scenario: for the segment ids \<open>[-1, 0]\<close> and the upstream gradient
  \<open>[1]\<close> the reconstructed gradient is \<open>[0, 1]\<close>.
\<close>

lemma gatherDropNegatives_scenario:
  "gatherDropNegatives dyOne idsNeg0 0 \<noteq> None \<and>
   shape (the (gatherDropNegatives dyOne idsNeg0 0)) = [2] \<and>
   valAt (the (gatherDropNegatives dyOne idsNeg0 0)) [0] = 0 \<and>
   valAt (the (gatherDropNegatives dyOne idsNeg0 0)) [1] = 1"
  by (simp add: gatherDropNegatives_steps gathered_value rank_def whereMask_rank1
        whereOp_def zerosLike_def broadcastIndex_def dyOne_def idsNeg0_def)



section \<open>The indices handed to gather\<close>

text \<open>
  Claim C7, amended. For one-dimensional segment ids of length \<open>n\<close>, the index tensor
  that \<open>gatherDropNegatives\<close> hands to \<^verbatim>\<open>gather\<close> holds \<open>max(segmentIds[i], 0)\<close> at
  every position \<open>i\<close>, so every index is non-negative. When every segment id is less
  than the size of the upstream gradient along the gather axis, and that size is not
  zero or there are no segment ids, every index lies inside the upstream gradient.
  The condition on the size is needed: a negative id is clamped to the index 0, which an
  upstream gradient of size zero does not have.
\<close>

theorem clipped_indices_in_bounds:
  assumes "shape indices = [n]" and "axis < rank x"
  shows "\<exists>clipped. zeroClippedIndices indices = Some clipped \<and>
           gathered x indices axis = gather x clipped axis \<and>
           (\<forall>i < n. valAt clipped [int i] = max (valAt indices [int i]) 0 \<and>
                     0 \<le> valAt clipped [int i]) \<and>
           ((\<forall>i < n. valAt indices [int i] < int (shape x ! axis)) \<and>
            (0 < shape x ! axis \<or> n = 0)
              \<longrightarrow> gatherInBounds x clipped axis)"
  using assms
  by (auto simp: zeroClippedIndices_value gathered_def gatherInBounds_def list_all_iff
        broadcastIndex_1)

theorem clipped_indices_in_bounds_witness:
  "\<exists>clipped. zeroClippedIndices idsNeg0 = Some clipped \<and>
      valAt clipped [0] = 0 \<and> valAt clipped [1] = 0 \<and>
      gatherInBounds dyOne clipped 0"
proof -
  have sh: "shape idsNeg0 = [2]" by (simp add: idsNeg0_def)
  have ax: "0 < rank dyOne" by (simp add: dyOne_def rank_def)
  have small: "(\<forall>i < 2. valAt idsNeg0 [int i] < int (shape dyOne ! 0)) \<and>
               (0 < shape dyOne ! 0 \<or> (2::nat) = 0)"
    by (simp add: idsNeg0_def dyOne_def)
  from clipped_indices_in_bounds[OF sh ax] small
  obtain clipped where c: "zeroClippedIndices idsNeg0 = Some clipped"
    and v: "\<forall>i < 2. valAt clipped [int i] = max (valAt idsNeg0 [int i]) 0"
    and b: "gatherInBounds dyOne clipped 0"
    by blast
  have "valAt clipped [0] = 0"
    using v[rule_format, of 0] by (simp add: idsNeg0_def)
  moreover have "valAt clipped [1] = 0"
    using v[rule_format, of 1] by (simp add: idsNeg0_def)
  ultimately show ?thesis using c b by blast
qed

text \<open>
  The claim as stated fails for an upstream gradient with no slot. The one segment id,
  \<open>-1\<close>, is less than the size 0 of \<open>dyEmpty\<close> along axis 0; the index handed to
  \<^verbatim>\<open>gather\<close> is 0, and it is out of bounds.
\<close>

theorem clipped_index_outside_empty_gradient:
  "shape idsOnlyNeg = [1] \<and>
   valAt idsOnlyNeg [0] < int (shape dyEmpty ! 0) \<and>
   zeroClippedIndices idsOnlyNeg \<noteq> None \<and>
   valAt (the (zeroClippedIndices idsOnlyNeg)) [0] = 0 \<and>
   \<not> gatherInBounds dyEmpty (the (zeroClippedIndices idsOnlyNeg)) 0"
  by (simp add: zeroClippedIndices_value gatherInBounds_def idsOnlyNeg_def dyEmpty_def
        broadcastIndex_def rank_def)

section \<open>The logical and is a broadcast\<close>

text \<open>
  Claim C8. Let \<open>p\<close> be the rank-expanded mask \<open>isPositive\<close>, \<open>b\<close> the mask
  \<^verbatim>\<open>onesLike(gathered).equal(1)\<close> and \<open>c\<close> their logical and, which is the mask the
  final \<^verbatim>\<open>where\<close> uses. Then \<open>b\<close> is true everywhere, and \<open>c\<close> at a position is
  \<open>p\<close> at the position broadcasting reads it at: the and changes no truth value. Inside
  its shape, \<open>p\<close> holds whether the segment id of the position's first index is
  non-negative. So at every position inside the final mask, the mask is true exactly
  when \<open>segmentIds >= 0\<close> is true at the entry the broadcast of \<open>p\<close> reads for that
  position. The and returns a mask whenever the two shapes broadcast, which they do for
  a gathered array of rank one or two (\<open>whereMask_rank1\<close>, \<open>whereMask_rank2\<close>).
\<close>

theorem logicalAnd_only_broadcasts:
  assumes "shape indices = [n]"
      and "isPositive indices (rank g) = Some p"
      and "bools g = Some b"
      and "logicalAnd p b = Some c"
  shows "whereMask indices g = Some c \<and>
         (\<forall>idx. valAt b idx) \<and>
         (\<forall>idx. valAt c idx = valAt p (broadcastIndex (shape p) idx)) \<and>
         (\<forall>idx. inRange (shape p) idx \<longrightarrow> valAt p idx = (0 \<le> valAt indices [hd idx])) \<and>
         (\<forall>idx. inRange (shape c) idx \<longrightarrow>
            valAt c idx = (0 \<le> valAt indices [hd (broadcastIndex (shape p) idx)]))"
proof -
  have m: "whereMask indices g = Some c"
    using assms by (simp add: whereMask_def)
  have t: "valAt b idx" for idx
    using assms(3) by (auto simp: bools_value)
  have bc: "valAt c idx = valAt p (broadcastIndex (shape p) idx)" for idx
    using assms(3,4)
    by (auto simp: bools_value logicalAnd_def broadcastOp_def split: option.splits)
  have pv: "valAt p idx = (0 \<le> valAt indices [hd idx])" if "inRange (shape p) idx" for idx
    using assms(1,2) that by (rule isPositive_valAt)
  have sh: "broadcastShape (shape p) (shape b) = Some (shape c)"
    using assms(4) by (auto simp: logicalAnd_def broadcastOp_def split: option.splits)
  have "valAt c idx = (0 \<le> valAt indices [hd (broadcastIndex (shape p) idx)])"
    if "inRange (shape c) idx" for idx
    using bc[of idx] pv[OF broadcastIndex_stays_inRange[OF sh that]] by simp
  with m t bc pv show ?thesis by blast
qed

theorem logicalAnd_only_broadcasts_witness:
  "\<exists>p c. isPositive idsNeg0 (rank x22) = Some p \<and> whereMask idsNeg0 x22 = Some c \<and>
      shape p = [2, 1] \<and>
      valAt c [0, 1] = valAt p [0, 0] \<and> valAt p [0, 0] = (0 \<le> valAt idsNeg0 [0]) \<and>
      valAt c [1, 1] = valAt p [1, 0] \<and> valAt p [1, 0] = (0 \<le> valAt idsNeg0 [1])"
proof -
  have sh: "shape idsNeg0 = [2]" by (simp add: idsNeg0_def)
  have r: "rank x22 = Suc (Suc 0)" by (simp add: x22_def rank_def)
  obtain p where p: "isPositive idsNeg0 (rank x22) = Some p" and shp: "shape p = [2, 1]"
    by (simp add: r isPositive_rank2[OF sh])
  obtain b where b: "bools x22 = Some b" and shb: "shape b = [2, 2]"
    by (simp add: bools_value x22_def)
  obtain c where c: "logicalAnd p b = Some c"
    by (simp add: logicalAnd_def broadcastOp_def shp shb broadcastShape_def)
  from logicalAnd_only_broadcasts[OF sh p b c]
  have m: "whereMask idsNeg0 x22 = Some c"
    and bc: "\<forall>idx. valAt c idx = valAt p (broadcastIndex (shape p) idx)"
    and pv: "\<forall>idx. inRange (shape p) idx \<longrightarrow> valAt p idx = (0 \<le> valAt idsNeg0 [hd idx])"
    by blast+
  from bc have "valAt c [0, 1] = valAt p [0, 0]" and "valAt c [1, 1] = valAt p [1, 0]"
    by (simp_all add: shp broadcastIndex_def)
  moreover from pv have "valAt p [0, 0] = (0 \<le> valAt idsNeg0 [0])"
    and "valAt p [1, 0] = (0 \<le> valAt idsNeg0 [1])"
    by (simp_all add: shp inRange_def)
  ultimately show ?thesis using p m shp by blast
qed

section \<open>The forward reduction under the spec's normalizer\<close>

text \<open>
  With the axis helper as the spec describes it there is no permutation at axis 0: the
  kernel runs on \<open>x\<close>, its result is returned as it is, and one node is recorded.
\<close>

lemma reduceSegments_spec:
  "reduceSegments (specAxisUtil inner) eng x segmentIds numSegments =
     (case backendUnsortedSegmentSum x segmentIds numSegments of
        Inl e \<Rightarrow>
          (Inl e,
           eng\<lparr>dispatched := dispatched eng @
                  [\<lparr>kernelX = x, kernelSegmentIds = segmentIds,
                    kernelNumSegments = numSegments\<rparr>]\<rparr>)
      | Inr res \<Rightarrow>
          (Inr res,
           eng\<lparr>dispatched := dispatched eng @
                  [\<lparr>kernelX = x, kernelSegmentIds = segmentIds,
                    kernelNumSegments = numSegments\<rparr>],
                tape := tape eng @
                  [\<lparr>nodeInputs = [(''permutedX'', x)], nodeOutput = res,
                    nodeGradient = \<lparr>segmentIdsOf = segmentIds, axisOf = Some 0\<rparr>\<rparr>]\<rparr>))"
  by (simp add: reduceSegments_def specAxisUtil_def normalizeX_def runKernel_def Let_def
      split: sum.splits)

lemma backend_value:
  assumes "shape x = n # trailing" "shape segmentIds = [n]" "0 \<le> k"
  shows "backendUnsortedSegmentSum x segmentIds (Num (of_int k)) =
           Inr \<lparr>dtype = dtype x, shape = nat k # trailing,
                 valAt = (\<lambda>idx. case idx of
                            [] \<Rightarrow> 0
                          | s # rest \<Rightarrow>
                              sum_list (map (\<lambda>i. valAt x (int i # rest))
                                (filter (\<lambda>i. valAt segmentIds [int i] = s) [0 ..< n])))\<rparr>"
  using assms by (simp add: backendUnsortedSegmentSum_def)

lemma sum_list_filter_upt:
  "sum_list (map f (filter P [0 ..< n])) = (\<Sum>i | i < n \<and> P i. f i)"
proof -
  have "sum_list (map f (filter P [0 ..< n])) = sum f (set (filter P [0 ..< n]))"
    by (rule sum_list_distinct_conv_sum_set) simp
  also have "set (filter P [0 ..< n]) = {i. i < n \<and> P i}" by auto
  finally show ?thesis .
qed

text \<open>
  Claim C1. For an array \<open>x\<close> with \<open>n\<close> slices along dimension 0, \<^verbatim>\<open>int32\<close> segment
  ids of length \<open>n\<close> and a non-negative integer segment count, \<open>unsortedSegmentSum\<close>
  returns an array whose slot \<open>s\<close> holds, at every position \<open>rest\<close> of a slice, the
  sum of the elements at \<open>rest\<close> of exactly the input slices \<open>i\<close> with
  \<open>segmentIds[i] = s\<close>; a slot that no slice maps to is zero. The kernel executor is
  the one the spec describes and the axis helper is the spec's normalizer.
\<close>

theorem unsortedSegmentSum_groups:
  assumes "dtype segmentIds = Int32"
      and "shape x = n # trailing" and "shape segmentIds = [n]" and "0 \<le> k"
  shows "\<exists>r. fst (unsortedSegmentSum (specAxisUtil inner) eng (IsTensor x)
                   (IsTensor segmentIds) (Num (of_int k))) = Inr r \<and>
           (\<forall>s rest.
              valAt r (s # rest) =
                (\<Sum>i | i < n \<and> valAt segmentIds [int i] = s. valAt x (int i # rest)) \<and>
              ((\<forall>i < n. valAt segmentIds [int i] \<noteq> s) \<longrightarrow> valAt r (s # rest) = 0))"
proof -
  have "(\<Sum>i | i < n \<and> valAt segmentIds [int i] = s. valAt x (int i # rest)) = 0"
    if "\<forall>i < n. valAt segmentIds [int i] \<noteq> s" for s rest
  proof -
    from that have "{i. i < n \<and> valAt segmentIds [int i] = s} = {}" by auto
    then show ?thesis by (simp only: sum.empty)
  qed
  with assms show ?thesis
    by (simp add: unsortedSegmentSum_validated reduceSegments_spec backend_value
          sum_list_filter_upt)
qed

text \<open>
  The spec's first scenario: \<open>x = [1, 2, 3, 4]\<close> with the segment ids
  \<open>[1, 2, 0, 1]\<close> and three segments gives \<open>[3, 5, 2]\<close>.
\<close>

theorem unsortedSegmentSum_groups_witness:
  "\<exists>r. fst (unsortedSegmentSum (specAxisUtil innerMost) emptyEngine (IsTensor x1234)
               (IsTensor ids1201) (Num 3)) = Inr r \<and>
       valAt r [0] = 3 \<and> valAt r [1] = 5 \<and> valAt r [2] = 2 \<and> valAt r [3] = 0"
proof -
  have h: "dtype ids1201 = Int32" "shape x1234 = 4 # []" "shape ids1201 = [4]"
    "(0::int) \<le> 3"
    by (simp_all add: ids1201_def x1234_def)
  from unsortedSegmentSum_groups[OF h, of innerMost emptyEngine]
  obtain r where r: "fst (unsortedSegmentSum (specAxisUtil innerMost) emptyEngine
                      (IsTensor x1234) (IsTensor ids1201) (Num 3)) = Inr r"
    and v: "\<forall>s rest. valAt r (s # rest) =
              (\<Sum>i | i < 4 \<and> valAt ids1201 [int i] = s. valAt x1234 (int i # rest))"
    by auto
  have s0: "{i. i < 4 \<and> valAt ids1201 [int i] = 0} = {2}"
    and s1: "{i. i < 4 \<and> valAt ids1201 [int i] = 1} = {0, 3}"
    and s2: "{i. i < 4 \<and> valAt ids1201 [int i] = 2} = {1}"
    and s3: "{i. i < 4 \<and> valAt ids1201 [int i] = 3} = {}"
    by (auto simp: ids1201_def split: if_splits)
  from v[rule_format, of 0 "[]"] v[rule_format, of 1 "[]"] v[rule_format, of 2 "[]"]
    v[rule_format, of 3 "[]"]
  have "valAt r [0] = 3 \<and> valAt r [1] = 5 \<and> valAt r [2] = 2 \<and> valAt r [3] = 0"
    by (simp add: s0 s1 s2 s3 x1234_def)
  with r show ?thesis by blast
qed

subsection \<open>The shape of the result\<close>






subsection \<open>No permutation at axis 0\<close>



section \<open>The gradient closure\<close>



text \<open>
  The spec's second scenario, from the call to the gradient: for \<open>x = [10, 20]\<close>, the
  segment ids \<open>[-1, 0]\<close> and one segment the operator returns \<open>[20]\<close> and records
  one node; its closure, applied to the upstream gradient \<open>[1]\<close>, gives \<open>[0, 1]\<close>
  under the key \<^verbatim>\<open>permutedX\<close>.
\<close>

lemma scenario_forward_and_gradient:
  "(case unsortedSegmentSum (specAxisUtil innerMost) emptyEngine (IsTensor x1020)
           (IsTensor idsNeg0) (Num 1) of
      (Inr out, eng) \<Rightarrow>
        shape out = [1] \<and> valAt out [0] = 20 \<and>
        (case map (\<lambda>node. applyGradFunc (nodeGradient node) dyOne) (tape eng) of
           [[(key, Some g)]] \<Rightarrow>
             key = ''permutedX'' \<and> shape g = [2] \<and> valAt g [0] = 0 \<and> valAt g [1] = 1
         | _ \<Rightarrow> False)
    | _ \<Rightarrow> False)"
  by code_simp


text \<open>
  What the claim states is what a helper of the other design gives: with
  \<open>innerAxisUtil\<close> there is no permutation for an input of rank one, and for an input
  of rank two or more there is one and the first of the innermost axes is
  \<open>x.rank - 1\<close>.
\<close>

lemma innerAxisUtil_axis:
  "(rank x = 1 \<longrightarrow> getAxesPermutation innerAxisUtil [0] (rank x) = Inr None) \<and>
   (2 \<le> rank x \<longrightarrow>
      getAxesPermutation innerAxisUtil [0] (rank x)
        = Inr (Some (filter (\<lambda>i. i \<noteq> 0) [0 ..< rank x] @ [0])) \<and>
      listHead (getInnerMostAxes innerAxisUtil 1 (rank x)) = Some (rank x - 1))"
proof -
  have "[rank x - 1 ..< rank x] = [rank x - 1]" if "2 \<le> rank x"
    using that by (simp add: upt_rec)
  then show ?thesis
    by (auto simp: innerAxisUtil_def innerMost_def)
qed

end
